theory Spec2Isabelle
  imports Main "HOL-Library.Word" "HOL-Library.Multiset" "HOL-Library.Sublist"
begin

section \<open>The Scrolls of Skelos: the note store of \<^verbatim>\<open>scrolls-init.go\<close>\<close>

text \<open>
  The program verified here is the \<^verbatim>\<open>NotesApp\<close> program (the second Go program of the
  source, the one with \<^verbatim>\<open>NewNotesApp\<close>, \<^verbatim>\<open>LoadNotes\<close>, \<^verbatim>\<open>SaveNotes\<close>, \<^verbatim>\<open>CreateTextNote\<close>,
  \<^verbatim>\<open>TakeScreenshot\<close>, \<^verbatim>\<open>ListNotes\<close>, \<^verbatim>\<open>SearchNotes\<close>, \<^verbatim>\<open>EditScroll\<close>, \<^verbatim>\<open>RetitleScroll\<close>,
  \<^verbatim>\<open>RecaptureImage\<close> and \<^verbatim>\<open>Run\<close>). Every method mutates the one \<^verbatim>\<open>*NotesApp\<close>, reads and
  writes files and prints; the model passes a \<open>World\<close> (the store in memory, the file
  system, the lines printed, the calls of \<^verbatim>\<open>ioutil.WriteFile\<close>) through each operation and
  takes what the environment decides (the clock readings, the lines typed, the outcome of
  the capture program and of file operations) as arguments.
\<close>

subsection \<open>Go values\<close>

text \<open>
  Go's \<^verbatim>\<open>int\<close> is a 64-bit two's complement integer on the platforms the program is built
  for; \<open>+\<close> on the word wraps as \<^verbatim>\<open>app.NextID++\<close> does and \<open>sint\<close> reads the value.
  A \<^verbatim>\<open>time.Time\<close> is modelled by the instant it denotes, a count of nanoseconds; the
  monotonic clock reading and the time zone that Go also stores are not modelled.
  A string is a sequence of bytes, any bytes.
\<close>

type_synonym go_int = "64 word"
type_synonym Time = nat

definition After :: "Time \<Rightarrow> Time \<Rightarrow> bool" where
  "After t u = (u < t)"

text \<open>
  A slice is nil or holds elements; an empty slice that is not nil is \<open>Slice []\<close>. The two
  have the same length and the same elements and differ in what \<^verbatim>\<open>encoding/json\<close> writes
  for them. \<^verbatim>\<open>append\<close> gives a slice that is not nil; \<^verbatim>\<open>s[i] = x\<close> is \<open>store\<close> (the program
  only stores at an index it has found in the slice).
\<close>

datatype 'a slice = nil | Slice "'a list"

fun elems :: "'a slice \<Rightarrow> 'a list" where
  "elems nil = []"
| "elems (Slice xs) = xs"

definition append_slice :: "'a slice \<Rightarrow> 'a \<Rightarrow> 'a slice" where
  "append_slice s x = Slice (elems s @ [x])"

definition store :: "'a slice \<Rightarrow> nat \<Rightarrow> 'a \<Rightarrow> 'a slice" where
  "store s i x = (case s of nil \<Rightarrow> nil | Slice xs \<Rightarrow> Slice (xs[i := x]))"

subsection \<open>The functions of package \<^verbatim>\<open>strings\<close>, \<^verbatim>\<open>fmt\<close> and \<^verbatim>\<open>filepath\<close> that are called\<close>

text \<open>
  \<open>ToLower\<close> and \<open>TrimSpace\<close> are modelled on ASCII, where Go's own implementations take
  their byte-wise path: \<open>ToLower\<close> lowers \<^verbatim>\<open>A\<close> to \<^verbatim>\<open>Z\<close> (Go also lowers the letters beyond
  ASCII from its Unicode tables), \<open>TrimSpace\<close> strips the six ASCII white space characters
  (Go also strips the Unicode ones). The search does not use this \<open>ToLower\<close>: it takes
  \<^verbatim>\<open>strings.ToLower\<close> as a parameter, see below.
\<close>

definition lower_byte :: "char \<Rightarrow> char" where
  "lower_byte c =
     (case map_of (zip ''ABCDEFGHIJKLMNOPQRSTUVWXYZ'' ''abcdefghijklmnopqrstuvwxyz'') c of
        Some d \<Rightarrow> d
      | None \<Rightarrow> c)"

definition ToLower :: "string \<Rightarrow> string" where
  "ToLower s = map lower_byte s"

definition isSpace :: "char \<Rightarrow> bool" where
  "isSpace c = (c \<in> set [CHR '' '', CHR 0x09, CHR 0x0A, CHR 0x0B, CHR 0x0C, CHR 0x0D])"

definition TrimSpace :: "string \<Rightarrow> string" where
  "TrimSpace s = rev (dropWhile isSpace (rev (dropWhile isSpace s)))"

fun HasPrefix :: "string \<Rightarrow> string \<Rightarrow> bool" where
  "HasPrefix s [] = True"
| "HasPrefix [] (p # ps) = False"
| "HasPrefix (c # cs) (p # ps) = (c = p \<and> HasPrefix cs ps)"

fun Contains :: "string \<Rightarrow> string \<Rightarrow> bool" where
  "Contains [] substr = (substr = [])"
| "Contains (c # cs) substr = (HasPrefix (c # cs) substr \<or> Contains cs substr)"

text \<open>\<^verbatim>\<open>strings.Split(s, ",")\<close>: the pieces between the commas, at least one piece.\<close>

fun Split_comma :: "string \<Rightarrow> string list" where
  "Split_comma [] = [[]]"
| "Split_comma (c # cs) =
     (if c = CHR '','' then [] # Split_comma cs
      else (case Split_comma cs of
              [] \<Rightarrow> [[c]]
            | piece # pieces \<Rightarrow> (c # piece) # pieces))"

text \<open>
  The loop that every prompt for tags runs,
  \<^verbatim>\<open>tags = strings.Split(tagsInput, ",")\<close> and then
  \<^verbatim>\<open>for i, tag := range tags { tags[i] = strings.TrimSpace(tag) }\<close>,
  under \<^verbatim>\<open>if tagsInput != ""\<close>; otherwise the slice declared by \<^verbatim>\<open>var tags []string\<close> stays
  nil.
\<close>

definition parse_tags :: "string \<Rightarrow> string slice" where
  "parse_tags tagsInput =
     (if tagsInput \<noteq> [] then Slice (map TrimSpace (Split_comma tagsInput)) else nil)"

text \<open>\<^verbatim>\<open>%d\<close> of \<^verbatim>\<open>fmt.Sprintf\<close>: decimal digits, with a minus sign for a negative number.\<close>

definition digit_char :: "nat \<Rightarrow> char" where
  "digit_char d = ''0123456789'' ! d"

definition digit_val :: "char \<Rightarrow> nat option" where
  "digit_val c = map_of (zip ''0123456789'' [0, 1, 2, 3, 4, 5, 6, 7, 8, 9]) c"

fun digits :: "nat \<Rightarrow> string" where
  "digits n = (if n < 10 then [digit_char n] else digits (n div 10) @ [digit_char (n mod 10)])"

declare digits.simps [simp del]

definition Sprintf_d :: "int \<Rightarrow> string" where
  "Sprintf_d i = (if i < 0 then CHR ''-'' # digits (nat (- i)) else digits (nat i))"

fun number_from :: "nat \<Rightarrow> string \<Rightarrow> nat option" where
  "number_from acc [] = Some acc"
| "number_from acc (c # cs) =
     (case digit_val c of None \<Rightarrow> None | Some d \<Rightarrow> number_from (10 * acc + d) cs)"

text \<open>
  \<^verbatim>\<open>filepath.Join\<close>: the non-empty elements, separated by a slash. The clean-up of the
  joined path (\<^verbatim>\<open>filepath.Clean\<close>) is not modelled.
\<close>

fun Join :: "string list \<Rightarrow> string" where
  "Join [] = []"
| "Join (e # es) =
     (if e = [] then Join es
      else (case Join es of [] \<Rightarrow> e | rest \<Rightarrow> e @ ''/'' @ rest))"

subsection \<open>UTF-8, as package \<^verbatim>\<open>encoding/json\<close> reads and writes strings\<close>

text \<open>
  \<open>rune_len s\<close> is the number of bytes of the UTF-8 encoding that \<open>s\<close> starts with, and 0
  when \<open>s\<close> starts with no encoding; the ranges of the second byte are those of
  \<^verbatim>\<open>utf8.DecodeRuneInString\<close>. Writing a string, and reading one, the package replaces every
  byte that starts no encoding by the replacement character U+FFFD, whose encoding is
  the three bytes EF BF BD, and keeps the encodings.
\<close>

definition byte :: "char \<Rightarrow> nat" where
  "byte c = of_char c"

definition between :: "nat \<Rightarrow> char \<Rightarrow> nat \<Rightarrow> bool" where
  "between lo c hi = (lo \<le> byte c \<and> byte c \<le> hi)"

fun rune_len :: "string \<Rightarrow> nat" where
  "rune_len [] = 0"
| "rune_len (b # bs) =
     (if byte b < 0x80 then 1
      else if between 0xC2 b 0xDF then
        (case bs of
           c1 # _ \<Rightarrow> if between 0x80 c1 0xBF then 2 else 0
         | _ \<Rightarrow> 0)
      else if between 0xE0 b 0xEF then
        (case bs of
           c1 # c2 # _ \<Rightarrow>
             if between (if byte b = 0xE0 then 0xA0 else 0x80) c1
                        (if byte b = 0xED then 0x9F else 0xBF) \<and>
                between 0x80 c2 0xBF
             then 3 else 0
         | _ \<Rightarrow> 0)
      else if between 0xF0 b 0xF4 then
        (case bs of
           c1 # c2 # c3 # _ \<Rightarrow>
             if between (if byte b = 0xF0 then 0x90 else 0x80) c1
                        (if byte b = 0xF4 then 0x8F else 0xBF) \<and>
                between 0x80 c2 0xBF \<and> between 0x80 c3 0xBF
             then 4 else 0
         | _ \<Rightarrow> 0)
      else 0)"

fun coerce_utf8 :: "string \<Rightarrow> string" where
  "coerce_utf8 [] = []"
| "coerce_utf8 (b # bs) =
     (case rune_len (b # bs) of
        0 \<Rightarrow> [CHR 0xEF, CHR 0xBF, CHR 0xBD] @ coerce_utf8 bs
      | Suc k \<Rightarrow> b # take k bs @ coerce_utf8 (drop k bs))"

text \<open>\<^verbatim>\<open>utf8.ValidString\<close>: the string is a sequence of encodings.\<close>

fun ValidString :: "string \<Rightarrow> bool" where
  "ValidString [] = True"
| "ValidString (b # bs) =
     (case rune_len (b # bs) of
        0 \<Rightarrow> False
      | Suc k \<Rightarrow> ValidString (drop k bs))"

declare rune_len.simps(2) [simp del] coerce_utf8.simps(2) [simp del] ValidString.simps(2) [simp del]

subsection \<open>The data model\<close>

record Note =
  ID :: go_int
  Title :: string
  Content :: string
  Tags :: "string slice"
  CreatedAt :: Time
  UpdatedAt :: Time
  Type :: string
  FilePath :: string
  Screenshot :: string

record NotesApp =
  Notes :: "Note slice"
  NextID :: go_int
  NotesDir :: string
  ConfigFile :: string

text \<open>The zero value of \<^verbatim>\<open>Note\<close>, which a new element of a slice starts from.\<close>

definition zero_Note :: Note where
  "zero_Note = \<lparr>ID = 0, Title = [], Content = [], Tags = nil, CreatedAt = 0, UpdatedAt = 0,
                 Type = [], FilePath = [], Screenshot = []\<rparr>"

subsection \<open>JSON documents and package \<^verbatim>\<open>encoding/json\<close>\<close>

text \<open>
  A file holds bytes. \<^verbatim>\<open>json.Unmarshal\<close> first checks that the bytes are one well-formed
  JSON text and changes nothing if they are not, so all other byte contents are one value
  \<open>NotJson\<close>. A well-formed text is its tree; an object keeps its members in the order
  of the text. \<open>JNumber\<close> is a number written as an integer; \<open>JFraction\<close> is any other
  number (with a fraction or an exponent), which no field of the program accepts.
\<close>

datatype json =
    JNull
  | JBool bool
  | JNumber int
  | JFraction
  | JString string
  | JArray "json list"
  | JObject "(string \<times> json) list"

datatype content = NotJson | WellFormed json

text \<open>
  \<^verbatim>\<open>time.Time\<close> marshals to a JSON string. The layout of that string (RFC 3339) plays no
  part in the program; the model writes the instant in decimal digits and reads it back.
\<close>

definition time_MarshalJSON :: "Time \<Rightarrow> json" where
  "time_MarshalJSON t = JString (digits t)"

definition time_parse :: "string \<Rightarrow> Time option" where
  "time_parse s = (if s = [] then None else number_from 0 s)"

text \<open>
  \<^verbatim>\<open>json.MarshalIndent(app, "", "  ")\<close>: the exported fields in the order of the struct,
  under the name of their \<^verbatim>\<open>json\<close> tag, or under their Go name where there is no tag
  (\<^verbatim>\<open>NotesDir\<close> and \<^verbatim>\<open>ConfigFile\<close> have none and are written too); a field tagged
  \<^verbatim>\<open>omitempty\<close> is left out when it is the empty string; a string is written coerced to
  UTF-8; a nil slice is written as \<^verbatim>\<open>null\<close>, any other slice as an array.
\<close>

definition marshal_string :: "string \<Rightarrow> json" where
  "marshal_string s = JString (coerce_utf8 s)"

definition marshal_strings :: "string slice \<Rightarrow> json" where
  "marshal_strings ss =
     (case ss of nil \<Rightarrow> JNull | Slice xs \<Rightarrow> JArray (map marshal_string xs))"

definition Note_json :: "Note \<Rightarrow> json" where
  "Note_json n = JObject
     ([(''id'', JNumber (sint (ID n))),
       (''title'', marshal_string (Title n)),
       (''content'', marshal_string (Content n)),
       (''tags'', marshal_strings (Tags n)),
       (''created_at'', time_MarshalJSON (CreatedAt n)),
       (''updated_at'', time_MarshalJSON (UpdatedAt n)),
       (''type'', marshal_string (Type n))]
      @ (if FilePath n = [] then [] else [(''file_path'', marshal_string (FilePath n))])
      @ (if Screenshot n = [] then [] else [(''screenshot'', marshal_string (Screenshot n))]))"

definition Marshal :: "NotesApp \<Rightarrow> json" where
  "Marshal a = JObject
     [(''notes'', (case Notes a of nil \<Rightarrow> JNull | Slice ns \<Rightarrow> JArray (map Note_json ns))),
      (''next_id'', JNumber (sint (NextID a))),
      (''NotesDir'', marshal_string (NotesDir a)),
      (''ConfigFile'', marshal_string (ConfigFile a))]"

text \<open>
  \<^verbatim>\<open>json.Unmarshal(data, app)\<close> decodes into the value that is already there. Each decoder
  below takes the JSON value and the old Go value and returns the new Go value and how
  decoding went:
  \<^item> \<open>Decoded\<close>: no error. \<^verbatim>\<open>null\<close> leaves a string, a number, a time or a struct as it is
    and makes a slice nil; a string is read coerced to UTF-8.
  \<^item> \<open>Mismatch\<close>: a value of the wrong type for a string, a number, a slice or a struct
    (also a number that is no integer of 64 bits). The field keeps its old value, the
    error is remembered, and decoding goes on.
  \<^item> \<open>Stopped\<close>: \<^verbatim>\<open>time.Time\<close> decodes itself (it is a \<^verbatim>\<open>json.Unmarshaler\<close>), and the error
    it returns for anything but \<^verbatim>\<open>null\<close> or a timestamp it can read is returned at once:
    decoding ends there, and what was decoded before stays.

  The members of an object are decoded in the order of the text; a member is matched to
  the field of that name under the case folding of the package, in which the letters of
  ASCII match in either case and the two characters U+017F (long s) and U+212A (Kelvin
  sign) match \<^verbatim>\<open>s\<close> and \<^verbatim>\<open>k\<close>; a member that matches no field is ignored. Every element of
  an array starts from the zero value, as it does in Go when the slice decoded into has no
  capacity: that is so for \<^verbatim>\<open>app.Notes\<close> at the one call of \<^verbatim>\<open>json.Unmarshal\<close>, in
  \<^verbatim>\<open>LoadNotes\<close> under \<^verbatim>\<open>NewNotesApp\<close>, and for the tags of a new element, unless the
  document names the same field twice in one object (then Go decodes the second array
  over the elements of the first). No statement below about the notes that are loaded is
  about such a document.
\<close>

datatype outcome = Decoded | Mismatch | Stopped

definition both :: "outcome \<Rightarrow> outcome \<Rightarrow> outcome" where
  "both a b =
     (if a = Stopped \<or> b = Stopped then Stopped
      else if a = Mismatch \<or> b = Mismatch then Mismatch
      else Decoded)"

fun fold_name :: "string \<Rightarrow> string" where
  "fold_name [] = []"
| "fold_name (c # cs) =
     (if c = CHR 0xC5 \<and> take 1 cs = [CHR 0xBF] then CHR ''s'' # fold_name (drop 1 cs)
      else if c = CHR 0xE2 \<and> take 2 cs = [CHR 0x84, CHR 0xAA]
      then CHR ''k'' # fold_name (drop 2 cs)
      else lower_byte c # fold_name cs)"

declare fold_name.simps [simp del]

definition decode_string :: "json \<Rightarrow> string \<Rightarrow> string \<times> outcome" where
  "decode_string j old =
     (case j of
        JString s \<Rightarrow> (coerce_utf8 s, Decoded)
      | JNull \<Rightarrow> (old, Decoded)
      | _ \<Rightarrow> (old, Mismatch))"

definition decode_int :: "json \<Rightarrow> go_int \<Rightarrow> go_int \<times> outcome" where
  "decode_int j old =
     (case j of
        JNumber k \<Rightarrow>
          (if - (2 ^ 63) \<le> k \<and> k < 2 ^ 63 then (word_of_int k, Decoded) else (old, Mismatch))
      | JNull \<Rightarrow> (old, Decoded)
      | _ \<Rightarrow> (old, Mismatch))"

definition decode_Time :: "json \<Rightarrow> Time \<Rightarrow> Time \<times> outcome" where
  "decode_Time j old =
     (case j of
        JString s \<Rightarrow> (case time_parse s of Some t \<Rightarrow> (t, Decoded) | None \<Rightarrow> (old, Stopped))
      | JNull \<Rightarrow> (old, Decoded)
      | _ \<Rightarrow> (old, Stopped))"

definition decode_strings :: "json \<Rightarrow> string slice \<Rightarrow> string slice \<times> outcome" where
  "decode_strings j old =
     (case j of
        JArray js \<Rightarrow>
          (Slice (map (\<lambda>e. fst (decode_string e [])) js),
           (if list_ex (\<lambda>e. snd (decode_string e []) = Mismatch) js then Mismatch else Decoded))
      | JNull \<Rightarrow> (nil, Decoded)
      | _ \<Rightarrow> (old, Mismatch))"

fun decode_members ::
  "(string \<Rightarrow> json \<Rightarrow> 'a \<Rightarrow> 'a \<times> outcome) \<Rightarrow> (string \<times> json) list \<Rightarrow> 'a \<Rightarrow> 'a \<times> outcome"
  where
  "decode_members field [] v = (v, Decoded)"
| "decode_members field ((key, j) # ms) v =
     (let (v', r) = field key j v
      in if r = Stopped then (v', Stopped)
         else (let (v'', r') = decode_members field ms v' in (v'', both r r')))"

definition Note_field :: "string \<Rightarrow> json \<Rightarrow> Note \<Rightarrow> Note \<times> outcome" where
  "Note_field key j n =
     (let k = fold_name key in
      if k = ''id'' then (let (v, r) = decode_int j (ID n) in (n\<lparr>ID := v\<rparr>, r))
      else if k = ''title'' then (let (v, r) = decode_string j (Title n) in (n\<lparr>Title := v\<rparr>, r))
      else if k = ''content'' then
        (let (v, r) = decode_string j (Content n) in (n\<lparr>Content := v\<rparr>, r))
      else if k = ''tags'' then (let (v, r) = decode_strings j (Tags n) in (n\<lparr>Tags := v\<rparr>, r))
      else if k = ''created_at'' then
        (let (v, r) = decode_Time j (CreatedAt n) in (n\<lparr>CreatedAt := v\<rparr>, r))
      else if k = ''updated_at'' then
        (let (v, r) = decode_Time j (UpdatedAt n) in (n\<lparr>UpdatedAt := v\<rparr>, r))
      else if k = ''type'' then (let (v, r) = decode_string j (Type n) in (n\<lparr>Type := v\<rparr>, r))
      else if k = ''file_path'' then
        (let (v, r) = decode_string j (FilePath n) in (n\<lparr>FilePath := v\<rparr>, r))
      else if k = ''screenshot'' then
        (let (v, r) = decode_string j (Screenshot n) in (n\<lparr>Screenshot := v\<rparr>, r))
      else (n, Decoded))"

definition decode_Note :: "json \<Rightarrow> Note \<Rightarrow> Note \<times> outcome" where
  "decode_Note j old =
     (case j of
        JObject ms \<Rightarrow> decode_members Note_field ms old
      | JNull \<Rightarrow> (old, Decoded)
      | _ \<Rightarrow> (old, Mismatch))"

text \<open>
  The elements of the array of notes, in turn: when one stops, the slice ends with that
  element as far as it was decoded.
\<close>

fun decode_elems :: "json list \<Rightarrow> Note list \<times> outcome" where
  "decode_elems [] = ([], Decoded)"
| "decode_elems (j # js) =
     (let (n, r) = decode_Note j zero_Note
      in if r = Stopped then ([n], Stopped)
         else (let (ns, r') = decode_elems js in (n # ns, both r r')))"

definition decode_Notes :: "json \<Rightarrow> Note slice \<Rightarrow> Note slice \<times> outcome" where
  "decode_Notes j old =
     (case j of
        JArray js \<Rightarrow> (let (ns, r) = decode_elems js in (Slice ns, r))
      | JNull \<Rightarrow> (nil, Decoded)
      | _ \<Rightarrow> (old, Mismatch))"

definition NotesApp_field :: "string \<Rightarrow> json \<Rightarrow> NotesApp \<Rightarrow> NotesApp \<times> outcome" where
  "NotesApp_field key j a =
     (let k = fold_name key in
      if k = ''notes'' then (let (v, r) = decode_Notes j (Notes a) in (a\<lparr>Notes := v\<rparr>, r))
      else if k = ''next_id'' then
        (let (v, r) = decode_int j (NextID a) in (a\<lparr>NextID := v\<rparr>, r))
      else if k = ''notesdir'' then
        (let (v, r) = decode_string j (NotesDir a) in (a\<lparr>NotesDir := v\<rparr>, r))
      else if k = ''configfile'' then
        (let (v, r) = decode_string j (ConfigFile a) in (a\<lparr>ConfigFile := v\<rparr>, r))
      else (a, Decoded))"

text \<open>
  The result of \<^verbatim>\<open>json.Unmarshal(data, app)\<close>: the store, and the outcome; \<^verbatim>\<open>err != nil\<close>
  is every outcome but \<open>Decoded\<close>.
\<close>

definition Unmarshal :: "content \<Rightarrow> NotesApp \<Rightarrow> NotesApp \<times> outcome" where
  "Unmarshal data a =
     (case data of
        NotJson \<Rightarrow> (a, Stopped)
      | WellFormed j \<Rightarrow>
          (case j of
             JObject ms \<Rightarrow> decode_members NotesApp_field ms a
           | JNull \<Rightarrow> (a, Decoded)
           | _ \<Rightarrow> (a, Mismatch)))"

subsection \<open>The world the store lives in\<close>

text \<open>
  What a path of the file system holds:
  \<^item> \<open>Absent\<close>: no file, and \<^verbatim>\<open>os.Stat\<close> fails with the error that \<^verbatim>\<open>os.IsNotExist\<close>
    recognises;
  \<^item> \<open>Unreachable\<close>: no file can be reached there and \<^verbatim>\<open>os.Stat\<close> fails with another error
    (a parent is not a directory, or may not be searched), so \<^verbatim>\<open>os.IsNotExist\<close> is false;
  \<^item> \<open>Unreadable\<close>: a file that \<^verbatim>\<open>os.Stat\<close> finds and \<^verbatim>\<open>ioutil.ReadFile\<close> cannot read;
  \<^item> \<open>Bytes\<close>: a file and its content.

  What is printed is kept as a list of messages, one constructor for each \<^verbatim>\<open>fmt.Printf\<close>
  that reports an outcome (prompts are left out; the layout of a listing is not modelled,
  the message carries the notes in the order they are printed). \<open>written\<close> records every
  call of \<^verbatim>\<open>ioutil.WriteFile\<close> by its path.
\<close>

datatype entry = Absent | Unreachable | Unreadable | Bytes content

datatype message =
    ErrorLoading
  | ErrorParsing
  | ErrorSaving
  | CreatedScroll go_int string
  | NotSupported
  | ErrorCapturing
  | CaptureCancelled
  | CapturedScroll go_int string
  | NoScrolls
  | Archive "Note list"
  | NothingFound string
  | KnowledgeFound string "Note list"
  | EmptyQuery
  | Modified go_int
  | NotFound go_int
  | Retitled go_int string
  | TitleUnchanged
  | NotAnImage go_int
  | WarnOldImage
  | Recaptured go_int string

record World =
  app :: NotesApp
  files :: "string \<Rightarrow> entry"
  written :: "string list"
  out :: "message list"

definition print :: "message \<Rightarrow> World \<Rightarrow> World" where
  "print m w = w\<lparr>out := out w @ [m]\<rparr>"

text \<open>
  What the environment decides: whether \<^verbatim>\<open>ioutil.WriteFile\<close> succeeds (and the file a
  failed write leaves behind), and what the capture program does: its exit status, and
  the file it leaves at the target path if it writes one.
\<close>

datatype write_result = Written | WriteError entry

datatype capture = Capture (exit_ok: bool) (leaves: "entry option")

definition run_capture :: "capture \<Rightarrow> string \<Rightarrow> World \<Rightarrow> World" where
  "run_capture cap path w =
     (case leaves cap of None \<Rightarrow> w | Some f \<Rightarrow> w\<lparr>files := (files w)(path := f)\<rparr>)"

definition supported :: "string \<Rightarrow> bool" where
  "supported goos = (goos = ''darwin'' \<or> goos = ''linux'' \<or> goos = ''windows'')"

text \<open>\<^verbatim>\<open>os.Remove\<close> can succeed only where there is a file.\<close>

definition is_file :: "entry \<Rightarrow> bool" where
  "is_file e = (case e of Unreadable \<Rightarrow> True | Bytes data \<Rightarrow> True | _ \<Rightarrow> False)"

subsection \<open>Loading and saving\<close>

text \<open>
  \<^verbatim>\<open>LoadNotes\<close> returns without a word only when \<^verbatim>\<open>os.IsNotExist\<close> holds of the error of
  \<^verbatim>\<open>os.Stat\<close>; otherwise it reads the file, and then unmarshals into the store.
\<close>

definition LoadNotes :: "World \<Rightarrow> World" where
  "LoadNotes w =
     (case files w (ConfigFile (app w)) of
        Absent \<Rightarrow> w
      | Unreachable \<Rightarrow> print ErrorLoading w
      | Unreadable \<Rightarrow> print ErrorLoading w
      | Bytes data \<Rightarrow>
          (let (a, r) = Unmarshal data (app w)
           in if r \<noteq> Decoded then print ErrorParsing (w\<lparr>app := a\<rparr>) else w\<lparr>app := a\<rparr>))"

text \<open>
  \<^verbatim>\<open>NewNotesApp\<close>, given the home directory and the file system it starts in. The two
  \<^verbatim>\<open>os.MkdirAll\<close> calls are not modelled: their errors are ignored by the source, and
  directories are not part of the file system here; a directory that could not be made
  shows in the paths below it being \<open>Unreachable\<close>.
\<close>

definition NewNotesApp :: "string \<Rightarrow> (string \<Rightarrow> entry) \<Rightarrow> World" where
  "NewNotesApp homeDir fs =
     (let notesDir = Join [homeDir, ''scrolls-of-skelos''];
          configFile = Join [notesDir, ''scrolls.json'']
      in LoadNotes
           \<lparr>app = \<lparr>Notes = Slice [], NextID = 1, NotesDir = notesDir, ConfigFile = configFile\<rparr>,
            files = fs, written = [], out = []\<rparr>)"

text \<open>
  \<^verbatim>\<open>SaveNotes\<close>. Marshalling the store cannot fail in the model (in Go it fails only for a
  timestamp after the year 9999).
\<close>

definition SaveNotes :: "World \<Rightarrow> write_result \<Rightarrow> World" where
  "SaveNotes w wr =
     (let path = ConfigFile (app w)
      in case wr of
           Written \<Rightarrow>
             w\<lparr>files := (files w)(path := Bytes (WellFormed (Marshal (app w)))),
               written := written w @ [path]\<rparr>
         | WriteError left \<Rightarrow>
             print ErrorSaving
               (w\<lparr>files := (files w)(path := left), written := written w @ [path]\<rparr>))"

subsection \<open>Creating notes\<close>

text \<open>\<open>t1\<close> and \<open>t2\<close> are the readings of the two calls of \<^verbatim>\<open>time.Now()\<close>.\<close>

definition CreateTextNote ::
  "World \<Rightarrow> string \<Rightarrow> string \<Rightarrow> string slice \<Rightarrow> Time \<Rightarrow> Time \<Rightarrow> write_result \<Rightarrow> World" where
  "CreateTextNote w title content tags t1 t2 wr =
     (let note = \<lparr>ID = NextID (app w), Title = title, Content = content, Tags = tags,
                  CreatedAt = t1, UpdatedAt = t2, Type = ''text'', FilePath = [],
                  Screenshot = []\<rparr>;
          w1 = w\<lparr>app := (app w)\<lparr>Notes := append_slice (Notes (app w)) note,
                                 NextID := NextID (app w) + 1\<rparr>\<rparr>;
          w2 = SaveNotes w1 wr
      in print (CreatedScroll (ID note) (Title note)) w2)"

text \<open>
  \<open>stamp\<close> is \<^verbatim>\<open>time.Now().Format("20060102_150405")\<close>, \<open>goos\<close> is \<^verbatim>\<open>runtime.GOOS\<close>. The test
  \<^verbatim>\<open>if _, err := os.Stat(screenshotPath); os.IsNotExist(err)\<close> holds exactly when the path
  is \<open>Absent\<close>: on an \<open>Unreachable\<close> path \<^verbatim>\<open>os.Stat\<close> fails too, but not with that error,
  and the function goes on.
\<close>

definition capture_name :: "string \<Rightarrow> go_int \<Rightarrow> string" where
  "capture_name stamp n = ''scroll_capture_'' @ stamp @ ''_'' @ Sprintf_d (sint n) @ ''.png''"

definition TakeScreenshot ::
  "World \<Rightarrow> string \<Rightarrow> string \<Rightarrow> string slice \<Rightarrow> string \<Rightarrow> capture \<Rightarrow> Time \<Rightarrow> Time \<Rightarrow>
   write_result \<Rightarrow> World" where
  "TakeScreenshot w goos title tags stamp cap t1 t2 wr =
     (let filename = capture_name stamp (NextID (app w));
          screenshotPath = Join [NotesDir (app w), ''screenshots'', filename]
      in if \<not> supported goos then print NotSupported w
         else
           (let w0 = run_capture cap screenshotPath w
            in if \<not> exit_ok cap then print ErrorCapturing w0
               else if files w0 screenshotPath = Absent then print CaptureCancelled w0
               else
                 (let note = \<lparr>ID = NextID (app w0), Title = title, Content = [], Tags = tags,
                              CreatedAt = t1, UpdatedAt = t2, Type = ''screenshot'',
                              FilePath = screenshotPath, Screenshot = filename\<rparr>;
                      w1 = w0\<lparr>app := (app w0)\<lparr>Notes := append_slice (Notes (app w0)) note,
                                               NextID := NextID (app w0) + 1\<rparr>\<rparr>;
                      w2 = SaveNotes w1 wr
                  in print (CapturedScroll (ID note) (Title note)) w2)))"

text \<open>
  The branch \<^verbatim>\<open>case "1", "inscribe", "add"\<close> of \<^verbatim>\<open>Run\<close>, given the three lines read.
\<close>

definition Run_inscribe ::
  "World \<Rightarrow> string \<Rightarrow> string \<Rightarrow> string \<Rightarrow> Time \<Rightarrow> Time \<Rightarrow> write_result \<Rightarrow> World" where
  "Run_inscribe w title_line content_line tags_line t1 t2 wr =
     (let title = TrimSpace title_line;
          content = TrimSpace content_line;
          tagsInput = TrimSpace tags_line;
          tags = parse_tags tagsInput
      in CreateTextNote w title content tags t1 t2 wr)"

subsection \<open>Listing and searching\<close>

text \<open>
  \<^verbatim>\<open>sort.Slice(app.Notes, less)\<close> sorts the slice of the store in place. Go does not
  promise the order of elements that the comparison does not separate; the model is the
  insertion sort that keeps them in their order, and nothing below depends on that choice.
\<close>

fun insert_by :: "('a \<Rightarrow> 'a \<Rightarrow> bool) \<Rightarrow> 'a \<Rightarrow> 'a list \<Rightarrow> 'a list" where
  "insert_by lt x [] = [x]"
| "insert_by lt x (y # ys) =
     (if lt y x then y # insert_by lt x ys else x # y # ys)"

definition sort_Slice :: "('a \<Rightarrow> 'a \<Rightarrow> bool) \<Rightarrow> 'a slice \<Rightarrow> 'a slice" where
  "sort_Slice lt s = (case s of nil \<Rightarrow> nil | Slice xs \<Rightarrow> Slice (foldr (insert_by lt) xs []))"

definition ListNotes :: "World \<Rightarrow> World" where
  "ListNotes w =
     (if length (elems (Notes (app w))) = 0 then print NoScrolls w
      else
        (let newest_first = sort_Slice (\<lambda>a b. After (CreatedAt a) (CreatedAt b)) (Notes (app w));
             w1 = w\<lparr>app := (app w)\<lparr>Notes := newest_first\<rparr>\<rparr>
         in print (Archive (elems (Notes (app w1)))) w1))"

text \<open>The sequence \<^verbatim>\<open>list()\<close> shows: the notes of the store after \<^verbatim>\<open>ListNotes\<close>.\<close>

definition listed :: "World \<Rightarrow> Note list" where
  "listed w = elems (Notes (app (ListNotes w)))"

text \<open>
  The search calls \<^verbatim>\<open>strings.ToLower\<close> on the query, the titles, the contents and the tags.
  That function, with its tables of the letters of Unicode, is the parameter \<open>lower\<close> of
  the definitions below, so that what is proved of the search is proved whatever
  \<^verbatim>\<open>strings.ToLower\<close> computes; on ASCII it is \<open>ToLower\<close>.
\<close>

fun containsTag_loop :: "(string \<Rightarrow> string) \<Rightarrow> string list \<Rightarrow> string \<Rightarrow> bool" where
  "containsTag_loop lower [] query = False"
| "containsTag_loop lower (tag # tags) query =
     (if Contains (lower tag) query then True else containsTag_loop lower tags query)"

definition containsTag :: "(string \<Rightarrow> string) \<Rightarrow> string slice \<Rightarrow> string \<Rightarrow> bool" where
  "containsTag lower tags query = containsTag_loop lower (elems tags) query"

text \<open>The loop of \<^verbatim>\<open>SearchNotes\<close> over \<^verbatim>\<open>app.Notes\<close>, appending to \<^verbatim>\<open>matches\<close>.\<close>

fun search_loop :: "(string \<Rightarrow> string) \<Rightarrow> Note list \<Rightarrow> string \<Rightarrow> Note list \<Rightarrow> Note list" where
  "search_loop lower [] query matches = matches"
| "search_loop lower (note # notes) query matches =
     (if Contains (lower (Title note)) query \<or>
         Contains (lower (Content note)) query \<or>
         containsTag lower (Tags note) query
      then search_loop lower notes query (matches @ [note])
      else search_loop lower notes query matches)"

text \<open>The slice \<^verbatim>\<open>matches\<close> when the loop is over: what the search found, in its order.\<close>

definition search :: "(string \<Rightarrow> string) \<Rightarrow> World \<Rightarrow> string \<Rightarrow> Note list" where
  "search lower w query = search_loop lower (elems (Notes (app w))) (lower query) []"

definition SearchNotes :: "(string \<Rightarrow> string) \<Rightarrow> World \<Rightarrow> string \<Rightarrow> World" where
  "SearchNotes lower w query =
     (let matches = search lower w query
      in if length matches = 0 then print (NothingFound (lower query)) w
         else print (KnowledgeFound (lower query) matches) w)"

text \<open>The branch \<^verbatim>\<open>case "5", "seek", "search"\<close> of \<^verbatim>\<open>Run\<close>, given the line read.\<close>

definition Run_seek :: "(string \<Rightarrow> string) \<Rightarrow> World \<Rightarrow> string \<Rightarrow> World" where
  "Run_seek lower w query_line =
     (let query = TrimSpace query_line
      in if query \<noteq> [] then SearchNotes lower w query else print EmptyQuery w)"

subsection \<open>Changing notes\<close>

text \<open>
  \<^verbatim>\<open>for i, note := range app.Notes { if note.ID == id { ...; return } }\<close>: the body runs
  for the first note with that ID, at its index (\<open>ident\<close> is the \<^verbatim>\<open>id\<close> of the source).
\<close>

fun find_ID :: "Note list \<Rightarrow> go_int \<Rightarrow> nat option" where
  "find_ID [] ident = None"
| "find_ID (note # notes) ident =
     (if ID note = ident then Some 0 else map_option Suc (find_ID notes ident))"

definition set_note :: "World \<Rightarrow> nat \<Rightarrow> Note \<Rightarrow> World" where
  "set_note w i n = w\<lparr>app := (app w)\<lparr>Notes := store (Notes (app w)) i n\<rparr>\<rparr>"


definition RetitleScroll :: "World \<Rightarrow> go_int \<Rightarrow> string \<Rightarrow> Time \<Rightarrow> write_result \<Rightarrow> World" where
  "RetitleScroll w ident title_line t wr =
     (case find_ID (elems (Notes (app w))) ident of
        None \<Rightarrow> print (NotFound ident) w
      | Some i \<Rightarrow>
          (let note = elems (Notes (app w)) ! i;
               newTitle = TrimSpace title_line
           in if newTitle \<noteq> [] then
                (let w1 = SaveNotes (set_note w i (note\<lparr>Title := newTitle, UpdatedAt := t\<rparr>)) wr
                 in print (Retitled ident newTitle) w1)
              else print TitleUnchanged w))"

text \<open>
  \<^verbatim>\<open>RecaptureImage\<close>, given the answer line, the stamp, the capture, the clock reading and
  whether \<^verbatim>\<open>os.Remove\<close> of the old image succeeds (it cannot where there is no file).
\<close>

definition RecaptureImage ::
  "World \<Rightarrow> go_int \<Rightarrow> string \<Rightarrow> string \<Rightarrow> string \<Rightarrow> capture \<Rightarrow> Time \<Rightarrow> bool \<Rightarrow>
   write_result \<Rightarrow> World" where
  "RecaptureImage w ident goos response_line stamp cap t rm_ok wr =
     (case find_ID (elems (Notes (app w))) ident of
        None \<Rightarrow> print (NotFound ident) w
      | Some i \<Rightarrow>
          (let note = elems (Notes (app w)) ! i
           in if Type note \<noteq> ''screenshot'' then print (NotAnImage ident) w
              else
                (let response = TrimSpace (ToLower response_line);
                     deleteOld = (response = ''y'' \<or> response = ''yes'');
                     oldFilePath = FilePath note;
                     filename = capture_name stamp (ID note);
                     screenshotPath = Join [NotesDir (app w), ''screenshots'', filename]
                 in if \<not> supported goos then print NotSupported w
                    else
                      (let w0 = run_capture cap screenshotPath w
                       in if \<not> exit_ok cap then print ErrorCapturing w0
                          else if files w0 screenshotPath = Absent
                          then print CaptureCancelled w0
                          else
                            (let w1 = set_note w0 i
                                        ((elems (Notes (app w0)) ! i)
                                           \<lparr>FilePath := screenshotPath, Screenshot := filename,
                                            UpdatedAt := t\<rparr>);
                                 w2 = (if deleteOld \<and> oldFilePath \<noteq> [] then
                                         (if is_file (files w1 oldFilePath) \<and> rm_ok
                                          then w1\<lparr>files := (files w1)(oldFilePath := Absent)\<rparr>
                                          else print WarnOldImage w1)
                                       else w1);
                                 w3 = SaveNotes w2 wr
                             in print (Recaptured ident filename) w3)))))"

subsection \<open>Sequences of calls, the words of the specification, and sample worlds\<close>

text \<open>The note that \<^verbatim>\<open>CreateTextNote\<close> builds, and the path \<^verbatim>\<open>TakeScreenshot\<close> captures to.\<close>

definition text_note ::
  "go_int \<Rightarrow> string \<Rightarrow> string \<Rightarrow> string slice \<Rightarrow> Time \<Rightarrow> Time \<Rightarrow> Note" where
  "text_note n title content tags t1 t2 =
     \<lparr>ID = n, Title = title, Content = content, Tags = tags, CreatedAt = t1, UpdatedAt = t2,
      Type = ''text'', FilePath = [], Screenshot = []\<rparr>"

definition target_path :: "World \<Rightarrow> string \<Rightarrow> string" where
  "target_path w stamp =
     Join [NotesDir (app w), ''screenshots'', capture_name stamp (NextID (app w))]"





text \<open>
  The match policy. \<open>ci_substring\<close>: the query is a substring without regard to case.
  \<open>spec_match\<close> is the policy in the words of the specification, where the content
  counts for a text note only; \<open>code_match\<close> is the policy without that restriction.
\<close>

definition ci_substring :: "(string \<Rightarrow> string) \<Rightarrow> string \<Rightarrow> string \<Rightarrow> bool" where
  "ci_substring lower q s = sublist (lower q) (lower s)"

definition spec_match :: "(string \<Rightarrow> string) \<Rightarrow> string \<Rightarrow> Note \<Rightarrow> bool" where
  "spec_match lower q n =
     (ci_substring lower q (Title n) \<or>
      (Type n = ''text'' \<and> ci_substring lower q (Content n)) \<or>
      (\<exists>tag\<in>set (elems (Tags n)). ci_substring lower q tag))"

definition code_match :: "(string \<Rightarrow> string) \<Rightarrow> string \<Rightarrow> Note \<Rightarrow> bool" where
  "code_match lower q n =
     (ci_substring lower q (Title n) \<or>
      ci_substring lower q (Content n) \<or>
      (\<exists>tag\<in>set (elems (Tags n)). ci_substring lower q tag))"

text \<open>
  The data model of the specification gives a content to text notes only; in the store a
  note of another type then has the empty content, as every note made by
  \<^verbatim>\<open>TakeScreenshot\<close> has.
\<close>

definition content_on_text_only :: "NotesApp \<Rightarrow> bool" where
  "content_on_text_only a =
     (\<forall>n\<in>set (elems (Notes a)). Type n \<noteq> ''text'' \<longrightarrow> Content n = [])"

text \<open>The path of the collection document for a home directory, as \<^verbatim>\<open>NewNotesApp\<close> joins it.\<close>

definition config_path :: "string \<Rightarrow> string" where
  "config_path homeDir = Join [Join [homeDir, ''scrolls-of-skelos''], ''scrolls.json'']"

text \<open>
  A store with every string coerced to UTF-8, which is what a saved store is read back as,
  and the stores whose strings are UTF-8 already.
\<close>

definition map_slice :: "('a \<Rightarrow> 'b) \<Rightarrow> 'a slice \<Rightarrow> 'b slice" where
  "map_slice f s = (case s of nil \<Rightarrow> nil | Slice xs \<Rightarrow> Slice (map f xs))"

definition coerce_Note :: "Note \<Rightarrow> Note" where
  "coerce_Note n =
     n\<lparr>Title := coerce_utf8 (Title n), Content := coerce_utf8 (Content n),
       Tags := map_slice coerce_utf8 (Tags n), Type := coerce_utf8 (Type n),
       FilePath := coerce_utf8 (FilePath n), Screenshot := coerce_utf8 (Screenshot n)\<rparr>"

definition coerce_store :: "NotesApp \<Rightarrow> NotesApp" where
  "coerce_store a =
     a\<lparr>Notes := map_slice coerce_Note (Notes a), NotesDir := coerce_utf8 (NotesDir a),
       ConfigFile := coerce_utf8 (ConfigFile a)\<rparr>"

definition valid_Note :: "Note \<Rightarrow> bool" where
  "valid_Note n =
     (ValidString (Title n) \<and> ValidString (Content n) \<and> list_all ValidString (elems (Tags n)) \<and>
      ValidString (Type n) \<and> ValidString (FilePath n) \<and> ValidString (Screenshot n))"

definition valid_store :: "NotesApp \<Rightarrow> bool" where
  "valid_store a =
     (list_all valid_Note (elems (Notes a)) \<and> ValidString (NotesDir a) \<and>
      ValidString (ConfigFile a))"

text \<open>
  The members of the document at a path, when there is a file whose bytes are a JSON
  object. What a document says of the counter: the values of its members named \<^verbatim>\<open>next_id\<close>, in the
  order of the text; the counter that one such value gives a store that starts at 1; and
  whether decoding the members stops before the end of the document (which does not depend
  on the store decoded into).
\<close>

definition members_of :: "entry \<Rightarrow> (string \<times> json) list option" where
  "members_of e =
     (case e of
        Bytes (WellFormed (JObject ms)) \<Rightarrow> Some ms
      | _ \<Rightarrow> None)"




text \<open>
  Sample worlds. A first start in an empty home directory; the scenario of the
  specification (a note titled Gate Code); a second note made later; a creation with an
  empty title line; a creation with a title that is the one byte FF.
\<close>

definition no_files :: "string \<Rightarrow> entry" where
  "no_files p = Absent"

definition fresh_world :: World where
  "fresh_world = NewNotesApp ''/home/conan'' no_files"

definition gate_note :: Note where
  "gate_note = \<lparr>ID = 1, Title = ''Gate Code'', Content = ''4471'',
                 Tags = Slice [''security'', ''door''], CreatedAt = 10, UpdatedAt = 11,
                 Type = ''text'', FilePath = [], Screenshot = []\<rparr>"

definition chime_note :: Note where
  "chime_note = \<lparr>ID = 2, Title = ''Door chime'', Content = ''rings twice'', Tags = nil,
                  CreatedAt = 20, UpdatedAt = 21, Type = ''text'', FilePath = [],
                  Screenshot = []\<rparr>"

definition gate_world :: World where
  "gate_world = Run_inscribe fresh_world ''Gate Code'' ''4471'' ''security, door'' 10 11 Written"


definition two_scrolls :: World where
  "two_scrolls = Run_inscribe gate_world ''Door chime'' ''rings twice'' [] 20 21 Written"

definition byte_title_world :: World where
  "byte_title_world = Run_inscribe fresh_world [CHR 0xFF] ''4471'' [] 10 11 Written"

text \<open>
  The Gate Code note followed by an image note, made by a capture that leaves a file.
\<close>

definition sketch_note :: Note where
  "sketch_note = \<lparr>ID = 2, Title = ''Gate sketch'', Content = [], Tags = nil, CreatedAt = 30,
     UpdatedAt = 31, Type = ''screenshot'',
     FilePath = ''/home/conan/scrolls-of-skelos/screenshots/scroll_capture_20240101_120000_2.png'',
     Screenshot = ''scroll_capture_20240101_120000_2.png''\<rparr>"

definition sketch_world :: World where
  "sketch_world =
     TakeScreenshot gate_world ''linux'' ''Gate sketch'' nil ''20240101_120000''
       (Capture True (Some (Bytes NotJson))) 30 31 Written"

text \<open>
  Sample documents, all of them the document that \<^verbatim>\<open>SaveNotes\<close> writes for a store with one
  note of ID 5, with the counter as saved (6), behind the note (1), garbled (a string), or
  taken out; and the saved document of a store whose one note is an image with a content.
\<close>

definition old_scroll :: Note where
  "old_scroll = \<lparr>ID = 5, Title = ''Old'', Content = ''kept'', Tags = nil, CreatedAt = 3,
                  UpdatedAt = 4, Type = ''text'', FilePath = [], Screenshot = []\<rparr>"

definition old_store :: NotesApp where
  "old_store = \<lparr>Notes = Slice [old_scroll], NextID = 6,
                 NotesDir = ''/home/conan/scrolls-of-skelos'',
                 ConfigFile = ''/home/conan/scrolls-of-skelos/scrolls.json''\<rparr>"

definition document_with :: "json list \<Rightarrow> (string \<times> json) list" where
  "document_with counter =
     [(''notes'', JArray [Note_json old_scroll])] @
     map (\<lambda>v. (''next_id'', v)) counter @
     [(''NotesDir'', JString ''/home/conan/scrolls-of-skelos''),
      (''ConfigFile'', JString ''/home/conan/scrolls-of-skelos/scrolls.json'')]"

definition files_with :: "json list \<Rightarrow> string \<Rightarrow> entry" where
  "files_with counter =
     no_files(config_path ''/home/conan'' := Bytes (WellFormed (JObject (document_with counter))))"



definition garbled_files :: "string \<Rightarrow> entry" where
  "garbled_files = files_with [JString ''x'']"




definition map_note :: Note where
  "map_note = \<lparr>ID = 1, Title = ''Map'', Content = ''hidden'', Tags = nil, CreatedAt = 3,
                UpdatedAt = 4, Type = ''screenshot'',
                FilePath = ''/home/conan/scrolls-of-skelos/screenshots/map.png'',
                Screenshot = ''map.png''\<rparr>"

definition map_store :: NotesApp where
  "map_store = \<lparr>Notes = Slice [map_note], NextID = 2,
                 NotesDir = ''/home/conan/scrolls-of-skelos'',
                 ConfigFile = ''/home/conan/scrolls-of-skelos/scrolls.json''\<rparr>"

definition map_world :: World where
  "map_world =
     NewNotesApp ''/home/conan''
       (no_files(config_path ''/home/conan'' := Bytes (WellFormed (Marshal map_store))))"

text \<open>
  A first start where the directory of the images could not be made (a file of that name
  is in the way, say): every path below it is unreachable.
\<close>

definition blocked_files :: "string \<Rightarrow> entry" where
  "blocked_files p =
     (if HasPrefix p ''/home/conan/scrolls-of-skelos/screenshots/'' then Unreachable
      else Absent)"

definition blocked_world :: World where
  "blocked_world = NewNotesApp ''/home/conan'' blocked_files"

section \<open>Facts about the library functions\<close>

lemma TrimSpace_blank: "\<forall>c\<in>set s. isSpace c \<Longrightarrow> TrimSpace s = []"
  by (auto simp: TrimSpace_def dest: set_dropWhileD)

lemma HasPrefix_prefix: "HasPrefix s p = prefix p s"
  by (induction s p rule: HasPrefix.induct) auto

lemma Contains_sublist: "Contains s substr = sublist substr s"
proof (induction s)
  case Nil
  then show ?case by simp
next
  case (Cons c cs)
  show ?case
  proof (cases substr)
    case Nil
    then show ?thesis by simp
  next
    case (Cons p ps)
    with Cons.IH show ?thesis
      by (simp add: HasPrefix_prefix sublist_Cons_right del: HasPrefix.simps)
  qed
qed

lemma containsTag_ex:
  "containsTag lower tags query = (\<exists>tag\<in>set (elems tags). sublist query (lower tag))"
proof -
  have "containsTag_loop lower ts query = (\<exists>tag\<in>set ts. sublist query (lower tag))" for ts
    by (induction ts) (auto simp: Contains_sublist)
  then show ?thesis by (simp add: containsTag_def)
qed

lemma find_ID_None: "find_ID ns ident = None \<longleftrightarrow> ident \<notin> ID ` set ns"
  by (induction ns) auto


lemma find_ID_Some_iff: "ident \<in> ID ` set ns \<Longrightarrow> \<exists>i. find_ID ns ident = Some i"
  using find_ID_None [of ns ident] by (cases "find_ID ns ident") auto

lemma mset_insert_by: "mset (insert_by lt x xs) = add_mset x (mset xs)"
  by (induction xs) auto

lemma mset_sort_Slice: "mset (elems (sort_Slice lt s)) = mset (elems s)"
proof (cases s)
  case nil
  then show ?thesis by (simp add: sort_Slice_def)
next
  case (Slice xs)
  have "mset (foldr (insert_by lt) xs []) = mset xs"
    by (induction xs) (auto simp: mset_insert_by)
  with Slice show ?thesis by (simp add: sort_Slice_def)
qed

lemma digit_table:
  "\<forall>d\<in>set [0, 1, 2, 3, 4, 5, 6, 7, 8, 9 :: nat]. digit_val (digit_char d) = Some d"
  by (simp add: digit_val_def digit_char_def)

lemma digit_val_digit_char: "d < 10 \<Longrightarrow> digit_val (digit_char d) = Some d"
proof -
  assume "d < 10"
  then have "d \<in> set [0, 1, 2, 3, 4, 5, 6, 7, 8, 9 :: nat]" by (simp; presburger)
  with digit_table show ?thesis by blast
qed

lemma number_from_append:
  "number_from acc (xs @ ys) =
     (case number_from acc xs of None \<Rightarrow> None | Some a \<Rightarrow> number_from a ys)"
  by (induction xs arbitrary: acc) (auto split: option.splits)

lemma digits_not_Nil: "digits n \<noteq> []"
  by (subst digits.simps) simp

lemma number_from_digits: "number_from 0 (digits n) = Some n"
proof (induction n rule: digits.induct)
  case (1 n)
  show ?case
  proof (cases "n < 10")
    case True
    then show ?thesis by (subst digits.simps) (simp add: digit_val_digit_char)
  next
    case False
    with 1 have "number_from 0 (digits (n div 10)) = Some (n div 10)" by simp
    with False show ?thesis
      by (subst digits.simps) (simp add: number_from_append digit_val_digit_char)
  qed
qed

lemma time_parse_digits: "time_parse (digits t) = Some t"
  by (simp add: time_parse_def digits_not_Nil number_from_digits)

lemma rune_len_le4: "rune_len s \<le> 4"
  by (cases s) (auto simp: rune_len.simps split: list.splits)

lemma rune_len_prefix:
  assumes "rune_len (b # bs) = Suc k"
  shows "k \<le> length bs \<and> rune_len (b # take k bs @ rest) = Suc k"
proof -
  consider "k = 0" | "k = 1" | "k = 2" | "k = 3"
    using rune_len_le4 [of "b # bs"] assms by force
  then show ?thesis
  proof cases
    case 1
    with assms show ?thesis by (auto simp: rune_len.simps split: if_splits list.splits)
  next
    case 2
    with assms show ?thesis by (auto simp: rune_len.simps split: if_splits list.splits)
  next
    case 3
    with assms show ?thesis by (auto simp: rune_len.simps split: if_splits list.splits)
  next
    case 4
    with assms show ?thesis
      by (auto simp: rune_len.simps numeral_3_eq_3 split: if_splits list.splits)
  qed
qed

lemma ValidString_replacement:
  "ValidString (CHR 0xEF # CHR 0xBF # CHR 0xBD # s) = ValidString s"
  by (simp add: ValidString.simps rune_len.simps byte_def between_def)

lemma ValidString_coerce: "ValidString (coerce_utf8 s)"
proof (induction s rule: coerce_utf8.induct)
  case 1
  then show ?case by simp
next
  case (2 b bs)
  show ?case
  proof (cases "rune_len (b # bs)")
    case 0
    with 2 show ?thesis
      by (simp add: coerce_utf8.simps ValidString_replacement)
  next
    case (Suc k)
    then have k: "k \<le> length bs"
      and len: "rune_len (b # take k bs @ coerce_utf8 (drop k bs)) = Suc k"
      using rune_len_prefix by blast+
    from 2(2) [OF Suc] have "ValidString (coerce_utf8 (drop k bs))" .
    with k len Suc show ?thesis
      by (simp add: coerce_utf8.simps ValidString.simps)
  qed
qed

lemma valid_coerce: "ValidString s \<Longrightarrow> coerce_utf8 s = s"
  by (induction s rule: ValidString.induct)
    (auto simp: coerce_utf8.simps ValidString.simps split: nat.splits)

lemma coerce_coerce: "coerce_utf8 (coerce_utf8 s) = coerce_utf8 s"
  by (rule valid_coerce) (rule ValidString_coerce)

lemma ascii_valid: "\<forall>c\<in>set s. byte c < 0x80 \<Longrightarrow> ValidString s"
  by (induction s) (auto simp: ValidString.simps rune_len.simps)

lemma coerce_byte_FF: "coerce_utf8 [CHR 0xFF] = [CHR 0xEF, CHR 0xBF, CHR 0xBD]"
  by (simp add: coerce_utf8.simps rune_len.simps byte_def between_def)

subsection \<open>Marshalling and unmarshalling\<close>

lemma key_folds:
  "fold_name ''id'' = ''id''" "fold_name ''title'' = ''title''"
  "fold_name ''content'' = ''content''" "fold_name ''tags'' = ''tags''"
  "fold_name ''created_at'' = ''created_at''" "fold_name ''updated_at'' = ''updated_at''"
  "fold_name ''type'' = ''type''" "fold_name ''file_path'' = ''file_path''"
  "fold_name ''screenshot'' = ''screenshot''" "fold_name ''notes'' = ''notes''"
  "fold_name ''next_id'' = ''next_id''" "fold_name ''NotesDir'' = ''notesdir''"
  "fold_name ''ConfigFile'' = ''configfile''"
  by (simp_all add: fold_name.simps lower_byte_def)

lemma both_simps:
  "both Decoded r = r" "both r Decoded = r" "both Mismatch Mismatch = Mismatch"
  "both Stopped r = Stopped" "both r Stopped = Stopped"
  by (cases r; simp add: both_def)+

lemma sint_in_range: "- (2 ^ 63) \<le> sint (x :: go_int) \<and> sint x < 2 ^ 63"
  using sint_ge [of x] sint_lt [of x] by simp

lemma decode_int_sint: "decode_int (JNumber (sint x)) old = (x, Decoded)"
  using sint_in_range [of x] by (simp add: decode_int_def)

lemma decode_Time_marshal: "decode_Time (time_MarshalJSON t) old = (t, Decoded)"
  by (simp add: decode_Time_def time_MarshalJSON_def time_parse_digits)

lemma decode_string_marshal: "decode_string (marshal_string s) old = (coerce_utf8 s, Decoded)"
  by (simp add: decode_string_def marshal_string_def coerce_coerce)

lemma decode_strings_marshal:
  "decode_strings (marshal_strings ss) old = (map_slice coerce_utf8 ss, Decoded)"
proof (cases ss)
  case nil
  then show ?thesis by (simp add: decode_strings_def marshal_strings_def map_slice_def)
next
  case (Slice xs)
  have "map (\<lambda>e. fst (decode_string e [])) (map marshal_string xs) = map coerce_utf8 xs"
    by (simp add: decode_string_marshal)
  moreover have "\<not> list_ex (\<lambda>e. snd (decode_string e []) = Mismatch) (map marshal_string xs)"
    by (simp add: list_ex_iff decode_string_marshal)
  ultimately show ?thesis
    using Slice by (simp add: decode_strings_def marshal_strings_def map_slice_def)
qed

lemma decode_Note_marshal: "decode_Note (Note_json n) zero_Note = (coerce_Note n, Decoded)"
  by (simp add: decode_Note_def Note_json_def Note_field_def key_folds decode_int_sint
      decode_Time_marshal decode_strings_marshal decode_string_marshal zero_Note_def
      coerce_Note_def both_simps)

lemma decode_elems_marshal: "decode_elems (map Note_json ns) = (map coerce_Note ns, Decoded)"
  by (induction ns) (simp_all add: decode_Note_marshal both_simps)

lemma decode_Notes_marshal:
  "decode_Notes (case s of nil \<Rightarrow> JNull | Slice ns \<Rightarrow> JArray (map Note_json ns)) old =
     (map_slice coerce_Note s, Decoded)"
  by (cases s) (simp_all add: decode_Notes_def decode_elems_marshal map_slice_def)

lemma Unmarshal_Marshal:
  "Unmarshal (WellFormed (Marshal a)) \<lparr>Notes = Slice [], NextID = 1, NotesDir = d, ConfigFile = c\<rparr>
     = (coerce_store a, Decoded)"
  by (simp add: Unmarshal_def Marshal_def NotesApp_field_def key_folds decode_Notes_marshal
      decode_int_sint decode_string_marshal coerce_store_def both_simps)

lemma valid_map_coerce: "list_all ValidString xs \<Longrightarrow> map coerce_utf8 xs = xs"
  by (induction xs) (simp_all add: valid_coerce)

lemma valid_coerce_Note: "valid_Note n \<Longrightarrow> coerce_Note n = n"
  by (cases "Tags n") (simp_all add: valid_Note_def coerce_Note_def valid_coerce map_slice_def
      valid_map_coerce)

lemma valid_map_coerce_Note: "list_all valid_Note ns \<Longrightarrow> map coerce_Note ns = ns"
  by (induction ns) (simp_all add: valid_coerce_Note)

lemma valid_coerce_store: "valid_store a \<Longrightarrow> coerce_store a = a"
  by (cases "Notes a") (simp_all add: valid_store_def coerce_store_def valid_coerce map_slice_def
      valid_map_coerce_Note)

section \<open>Facts about the operations and the sample worlds\<close>



lemma config_path_conan:
  "config_path ''/home/conan'' = ''/home/conan/scrolls-of-skelos/scrolls.json''"
  by (simp add: config_path_def)

lemma print_simps:
  "app (print m w) = app w" "files (print m w) = files w" "written (print m w) = written w"
  "out (print m w) = out w @ [m]"
  by (simp_all add: print_def)

lemma SaveNotes_simps:
  "app (SaveNotes w wr) = app w"
  "written (SaveNotes w wr) = written w @ [ConfigFile (app w)]"
  "out (SaveNotes w Written) = out w"
  "files (SaveNotes w Written) =
     (files w)(ConfigFile (app w) := Bytes (WellFormed (Marshal (app w))))"
  by (simp_all add: SaveNotes_def Let_def print_def split: write_result.splits)

lemma run_capture_simps:
  "app (run_capture cap p w) = app w" "written (run_capture cap p w) = written w"
  "out (run_capture cap p w) = out w"
  by (simp_all add: run_capture_def split: option.splits)


lemma CreateTextNote_simps:
  "app (CreateTextNote w title content tags t1 t2 wr) =
     (app w)\<lparr>Notes := append_slice (Notes (app w))
                         (text_note (NextID (app w)) title content tags t1 t2),
              NextID := NextID (app w) + 1\<rparr>"
  "written (CreateTextNote w title content tags t1 t2 wr) = written w @ [ConfigFile (app w)]"
  "out (CreateTextNote w title content tags t1 t2 Written) =
     out w @ [CreatedScroll (NextID (app w)) title]"
  by (simp_all add: CreateTextNote_def Let_def print_simps SaveNotes_simps text_note_def)

lemma NewNotesApp_unfold:
  "NewNotesApp homeDir fs =
     LoadNotes \<lparr>app = \<lparr>Notes = Slice [], NextID = 1,
                        NotesDir = Join [homeDir, ''scrolls-of-skelos''],
                        ConfigFile = config_path homeDir\<rparr>,
                files = fs, written = [], out = []\<rparr>"
  by (simp add: NewNotesApp_def config_path_def Let_def)

lemma app_fresh_world:
  "app fresh_world = \<lparr>Notes = Slice [], NextID = 1, NotesDir = ''/home/conan/scrolls-of-skelos'',
     ConfigFile = ''/home/conan/scrolls-of-skelos/scrolls.json''\<rparr>"
  by (simp add: fresh_world_def NewNotesApp_def LoadNotes_def no_files_def)

lemma fresh_world_rest:
  "written fresh_world = []" "out fresh_world = []" "files fresh_world = no_files"
  by (simp_all add: fresh_world_def NewNotesApp_def LoadNotes_def no_files_def)

lemma TrimSpace_samples:
  "TrimSpace ''Gate Code'' = ''Gate Code''" "TrimSpace ''4471'' = ''4471''"
  "TrimSpace ''security, door'' = ''security, door''"
  "TrimSpace ''Door chime'' = ''Door chime''" "TrimSpace ''rings twice'' = ''rings twice''"
  "TrimSpace [] = []" "TrimSpace ''   '' = []" "TrimSpace [CHR 0xFF] = [CHR 0xFF]"
  "TrimSpace ''Gate'' = ''Gate''" "TrimSpace ''4472'' = ''4472''"
  by (simp_all add: TrimSpace_def isSpace_def)

lemma parse_tags_samples:
  "parse_tags ''security, door'' = Slice [''security'', ''door'']" "parse_tags [] = nil"
  by (simp_all add: parse_tags_def TrimSpace_def isSpace_def)

lemma ToLower_samples:
  "ToLower ''door'' = ''door''" "ToLower ''DOOR'' = ''door''" "ToLower ''nope'' = ''nope''"
  "ToLower ''Gate Code'' = ''gate code''" "ToLower ''4471'' = ''4471''"
  "ToLower ''security'' = ''security''" "ToLower ''Door chime'' = ''door chime''"
  "ToLower ''rings twice'' = ''rings twice''" "ToLower ''hidden'' = ''hidden''"
  "ToLower ''Map'' = ''map''"
  by (simp_all add: ToLower_def lower_byte_def)

lemma app_gate_world:
  "app gate_world = \<lparr>Notes = Slice [gate_note], NextID = 2,
     NotesDir = ''/home/conan/scrolls-of-skelos'',
     ConfigFile = ''/home/conan/scrolls-of-skelos/scrolls.json''\<rparr>"
  by (simp add: gate_world_def Run_inscribe_def CreateTextNote_simps Let_def text_note_def
      app_fresh_world TrimSpace_samples parse_tags_samples gate_note_def append_slice_def)

lemma gate_world_rest:
  "written gate_world = [''/home/conan/scrolls-of-skelos/scrolls.json'']"
  "out gate_world = [CreatedScroll 1 ''Gate Code'']"
  by (simp_all add: gate_world_def Run_inscribe_def CreateTextNote_simps Let_def
      app_fresh_world fresh_world_rest TrimSpace_samples parse_tags_samples)

lemma app_two_scrolls:
  "app two_scrolls = \<lparr>Notes = Slice [gate_note, chime_note], NextID = 3,
     NotesDir = ''/home/conan/scrolls-of-skelos'',
     ConfigFile = ''/home/conan/scrolls-of-skelos/scrolls.json''\<rparr>"
  by (simp add: two_scrolls_def Run_inscribe_def CreateTextNote_simps Let_def text_note_def
      app_gate_world TrimSpace_samples parse_tags_samples chime_note_def append_slice_def)

section \<open>Operations that must change nothing\<close>

text \<open>
  Claim C10. \<^verbatim>\<open>RetitleScroll\<close> on an existing note, given a line that is empty or all white
  space, changes nothing: the store (the note's title and \<^verbatim>\<open>UpdatedAt\<close>, every other note,
  the counter) and the file system are as before, \<^verbatim>\<open>ioutil.WriteFile\<close> is not called, and
  the program prints that the title is unchanged.
\<close>

theorem retitle_blank_changes_nothing:
  assumes "ident \<in> ID ` set (elems (Notes (app w)))" and "\<forall>c\<in>set title_line. isSpace c"
  shows "app (RetitleScroll w ident title_line t wr) = app w \<and>
         files (RetitleScroll w ident title_line t wr) = files w \<and>
         written (RetitleScroll w ident title_line t wr) = written w \<and>
         out (RetitleScroll w ident title_line t wr) = out w @ [TitleUnchanged]"
proof -
  from assms(1) obtain i where "find_ID (elems (Notes (app w))) ident = Some i"
    using find_ID_Some_iff by blast
  moreover from assms(2) have "TrimSpace title_line = []"
    by (rule TrimSpace_blank)
  ultimately have "RetitleScroll w ident title_line t wr = print TitleUnchanged w"
    by (simp add: RetitleScroll_def)
  then show ?thesis by (simp add: print_simps)
qed

text \<open>
  The theorem at the Gate Code note, retitled with three spaces.
\<close>

theorem retitle_blank_witness:
  "app (RetitleScroll gate_world 1 ''   '' 99 Written) = app gate_world \<and>
   written (RetitleScroll gate_world 1 ''   '' 99 Written) = written gate_world \<and>
   out (RetitleScroll gate_world 1 ''   '' 99 Written) =
     [CreatedScroll 1 ''Gate Code'', TitleUnchanged]"
  using retitle_blank_changes_nothing [of 1 gate_world "''   ''" 99 Written]
  by (simp add: app_gate_world gate_world_rest gate_note_def isSpace_def)

text \<open>
  Claim C9. \<^verbatim>\<open>RecaptureImage\<close> on a note whose type is \<^verbatim>\<open>text\<close> reports that the scroll is
  not a captured image and returns: the note, the rest of the collection, the counter and
  the file system are unchanged, and the collection document is not written.
\<close>

theorem recapture_text_note_rejected:
  assumes "find_ID (elems (Notes (app w))) ident = Some i"
    and "Type (elems (Notes (app w)) ! i) = ''text''"
  shows "app (RecaptureImage w ident goos response_line stamp cap t rm_ok wr) = app w \<and>
         files (RecaptureImage w ident goos response_line stamp cap t rm_ok wr) = files w \<and>
         written (RecaptureImage w ident goos response_line stamp cap t rm_ok wr) = written w \<and>
         out (RecaptureImage w ident goos response_line stamp cap t rm_ok wr) =
           out w @ [NotAnImage ident]"
proof -
  from assms have "RecaptureImage w ident goos response_line stamp cap t rm_ok wr =
      print (NotAnImage ident) w"
    by (simp add: RecaptureImage_def)
  then show ?thesis by (simp add: print_simps)
qed

text \<open>
  The theorem at the Gate Code note, which is a text note.
\<close>

theorem recapture_text_note_witness:
  "app (RecaptureImage gate_world 1 ''linux'' ''y'' ''20240101_120000''
          (Capture True (Some (Bytes NotJson))) 99 True Written) = app gate_world \<and>
   written (RecaptureImage gate_world 1 ''linux'' ''y'' ''20240101_120000''
          (Capture True (Some (Bytes NotJson))) 99 True Written) = written gate_world \<and>
   out (RecaptureImage gate_world 1 ''linux'' ''y'' ''20240101_120000''
          (Capture True (Some (Bytes NotJson))) 99 True Written) =
     [CreatedScroll 1 ''Gate Code'', NotAnImage 1]"
  using recapture_text_note_rejected [of gate_world 1 0 "''linux''" "''y''" "''20240101_120000''"
      "Capture True (Some (Bytes NotJson))" 99 True Written]
  by (simp add: app_gate_world gate_world_rest gate_note_def)

section \<open>Creating with an empty title; the order of a search\<close>



text \<open>
  Claim C5 says that a search shows its matches newest first, as a listing does, whatever
  was done before. \<^verbatim>\<open>SearchNotes\<close> walks \<^verbatim>\<open>app.Notes\<close> as it stands and does not sort, and
  \<^verbatim>\<open>CreateTextNote\<close> appends: after two creations the search shows the older note first,
  and the listing shows the newer note first.
\<close>

theorem search_order_example:
  "search ToLower two_scrolls ''door'' = [gate_note, chime_note] \<and>
   listed two_scrolls = [chime_note, gate_note] \<and>
   CreatedAt gate_note < CreatedAt chime_note"
  by (simp add: search_def listed_def ListNotes_def Let_def print_simps sort_Slice_def After_def
      app_two_scrolls gate_note_def chime_note_def ToLower_samples containsTag_def)

section \<open>A capture that leaves no file\<close>

lemma capture_failure_aborts:
  assumes "\<not> exit_ok cap \<or>
    files (run_capture cap (target_path w stamp) w) (target_path w stamp) = Absent"
  shows "app (TakeScreenshot w goos title tags stamp cap t1 t2 wr) = app w \<and>
         written (TakeScreenshot w goos title tags stamp cap t1 t2 wr) = written w \<and>
         files (TakeScreenshot w goos title tags stamp cap t1 t2 wr) =
           (if supported goos then files (run_capture cap (target_path w stamp) w) else files w) \<and>
         out (TakeScreenshot w goos title tags stamp cap t1 t2 wr) =
           out w @ [if \<not> supported goos then NotSupported
                    else if \<not> exit_ok cap then ErrorCapturing else CaptureCancelled]"
  using assms
  by (auto simp: TakeScreenshot_def Let_def target_path_def print_simps run_capture_simps)

lemma app_blocked_world:
  "app blocked_world = \<lparr>Notes = Slice [], NextID = 1,
     NotesDir = ''/home/conan/scrolls-of-skelos'',
     ConfigFile = ''/home/conan/scrolls-of-skelos/scrolls.json''\<rparr>"
  "written blocked_world = []" "out blocked_world = []" "files blocked_world = blocked_files"
  by (simp_all add: blocked_world_def NewNotesApp_def LoadNotes_def blocked_files_def)

lemma blocked_target:
  "target_path blocked_world ''20240101_120000'' =
     ''/home/conan/scrolls-of-skelos/screenshots/scroll_capture_20240101_120000_1.png''"
  by (simp add: target_path_def app_blocked_world capture_name_def Sprintf_d_def digits.simps
      digit_char_def)

text \<open>
  Claim C7 says that when no file is at the target after the capture, \<^verbatim>\<open>TakeScreenshot\<close>
  adds no note, does not move the counter and does not write the collection document. The
  source tests \<^verbatim>\<open>os.IsNotExist\<close> of the error of \<^verbatim>\<open>os.Stat\<close>, under the comment
  \<^verbatim>\<open>Check if screenshot file was created\<close>, and that test holds only when the path is
  absent from a directory that can be searched (lemma capture_failure_aborts: then, and when the
  capture reports failure, nothing is created). On a first start where the directory of the
  images could not be made (\<^verbatim>\<open>NewNotesApp\<close> drops the error of \<^verbatim>\<open>os.MkdirAll\<close>), a capture
  that exits normally and writes nothing leaves no file at the target, before or after;
  \<^verbatim>\<open>os.Stat\<close> fails with another error, and the function appends an image note with ID 1,
  moves the counter from 1 to 2, writes the collection document and reports the capture.
\<close>

theorem unreachable_target_example:
  "files blocked_world (target_path blocked_world ''20240101_120000'') = Unreachable \<and>
   files (TakeScreenshot blocked_world ''linux'' ''Map'' nil ''20240101_120000''
            (Capture True None) 30 31 Written)
     (target_path blocked_world ''20240101_120000'') = Unreachable \<and>
   elems (Notes (app (TakeScreenshot blocked_world ''linux'' ''Map'' nil ''20240101_120000''
            (Capture True None) 30 31 Written))) =
     [\<lparr>ID = 1, Title = ''Map'', Content = [], Tags = nil, CreatedAt = 30, UpdatedAt = 31,
       Type = ''screenshot'',
       FilePath = ''/home/conan/scrolls-of-skelos/screenshots/scroll_capture_20240101_120000_1.png'',
       Screenshot = ''scroll_capture_20240101_120000_1.png''\<rparr>] \<and>
   NextID (app blocked_world) = 1 \<and>
   NextID (app (TakeScreenshot blocked_world ''linux'' ''Map'' nil ''20240101_120000''
            (Capture True None) 30 31 Written)) = 2 \<and>
   written (TakeScreenshot blocked_world ''linux'' ''Map'' nil ''20240101_120000''
            (Capture True None) 30 31 Written) =
     [''/home/conan/scrolls-of-skelos/scrolls.json''] \<and>
   out (TakeScreenshot blocked_world ''linux'' ''Map'' nil ''20240101_120000''
            (Capture True None) 30 31 Written) = [CapturedScroll 1 ''Map'']"
proof -
  have name: "capture_name ''20240101_120000'' 1 = ''scroll_capture_20240101_120000_1.png''"
    by (simp add: capture_name_def Sprintf_d_def digits.simps digit_char_def)
  have there: "blocked_files
      ''/home/conan/scrolls-of-skelos/screenshots/scroll_capture_20240101_120000_1.png'' =
      Unreachable"
    by (simp add: blocked_files_def)
  have conf: "blocked_files ''/home/conan/scrolls-of-skelos/scrolls.json'' = Absent"
    by (simp add: blocked_files_def)
  show ?thesis
    by (simp add: blocked_target TakeScreenshot_def Let_def app_blocked_world name there
        run_capture_def supported_def print_simps SaveNotes_simps append_slice_def)
qed

section \<open>Editing\<close>




section \<open>Searching\<close>

lemma ascii_samples:
  "ValidString ''/home/conan/scrolls-of-skelos''"
  "ValidString ''/home/conan/scrolls-of-skelos/scrolls.json''"
  "ValidString ''/home/conan/scrolls-of-skelos/screenshots/map.png''"
  "ValidString ''map.png''" "ValidString ''Map''" "ValidString ''hidden''"
  "ValidString ''screenshot''" "ValidString ''text''" "ValidString ''Old''" "ValidString ''kept''"
  "ValidString ''Gate Code''" "ValidString ''4471''" "ValidString ''security''"
  "ValidString ''door''" "ValidString ''Door chime''" "ValidString ''rings twice''"
  "ValidString []"
  by (rule ascii_valid, simp add: byte_def)+

lemma app_map_world: "app map_world = map_store" "out map_world = []"
proof -
  have "valid_store map_store"
    by (simp add: valid_store_def map_store_def valid_Note_def map_note_def ascii_samples)
  then have "coerce_store map_store = map_store" by (rule valid_coerce_store)
  then show "app map_world = map_store" "out map_world = []"
    by (simp_all add: map_world_def NewNotesApp_unfold LoadNotes_def Unmarshal_Marshal)
qed

text \<open>
  Claim C4 says that the content is searched on text notes only. \<^verbatim>\<open>SearchNotes\<close> tests the
  content of every note, whatever its type: started on a saved document whose one note is
  an image with the content hidden, a search for that word finds and prints the note,
  which the match of the specification excludes.
\<close>

theorem image_content_counterexample:
  "elems (Notes (app map_world)) = [map_note] \<and> out map_world = [] \<and>
   Type map_note = ''screenshot'' \<and> Content map_note = ''hidden'' \<and>
   search ToLower map_world ''hidden'' = [map_note] \<and>
   out (SearchNotes ToLower map_world ''hidden'') = [KnowledgeFound ''hidden'' [map_note]] \<and>
   \<not> spec_match ToLower ''hidden'' map_note"
  by (simp add: app_map_world map_store_def SearchNotes_def Let_def print_simps search_def
      containsTag_def ToLower_samples map_note_def spec_match_def ci_substring_def sublist_code)

lemma search_loop_filter:
  "search_loop lower ns q acc = acc @ filter (\<lambda>n. Contains (lower (Title n)) q \<or>
      Contains (lower (Content n)) q \<or> containsTag lower (Tags n) q) ns"
  by (induction ns arbitrary: acc) auto

lemma search_code_match:
  "search lower w q = filter (code_match lower q) (elems (Notes (app w)))"
proof -
  have "code_match lower q = (\<lambda>n. Contains (lower (Title n)) (lower q) \<or>
      Contains (lower (Content n)) (lower q) \<or> containsTag lower (Tags n) (lower q))"
    by (simp add: fun_eq_iff code_match_def ci_substring_def Contains_sublist containsTag_ex)
  then show ?thesis by (simp add: search_def search_loop_filter)
qed

lemma mset_listed: "mset (listed w) = mset (elems (Notes (app w)))"
  by (simp add: listed_def ListNotes_def Let_def print_simps mset_sort_Slice)

lemma set_listed: "set (listed w) = set (elems (Notes (app w)))"
  using mset_listed [of w] by (metis set_mset_mset)

lemma code_match_spec:
  assumes "lower [] = []" and "Type n \<noteq> ''text'' \<longrightarrow> Content n = []"
  shows "code_match lower q n = spec_match lower q n"
proof (cases "Type n = ''text''")
  case True
  then show ?thesis by (simp add: code_match_def spec_match_def)
next
  case False
  with assms have "ci_substring lower q (Content n) \<longrightarrow> ci_substring lower q (Title n)"
    by (simp add: ci_substring_def)
  with False show ?thesis by (auto simp: code_match_def spec_match_def)
qed

text \<open>
  Claim C4, amended to what the code does. The case folding of \<^verbatim>\<open>strings.ToLower\<close> is the
  parameter \<^verbatim>\<open>lower\<close>. For every store and every query, empty or not, the search finds exactly
  the notes whose title, content (of a note of any type) or one of whose tags contains the
  query, all folded, in the order of the store; they are the matching notes among those a
  listing shows; a query that no note matches finds the empty sequence. \<^verbatim>\<open>SearchNotes\<close>
  changes neither the store nor the file system, and prints the folded query with the
  notes found in that order, or that nothing was found. On a store in which only text
  notes have a content, the notes found are those that match in the words of the
  specification.
\<close>

theorem search_finds_the_matching_notes:
  "search lower w q = filter (code_match lower q) (elems (Notes (app w))) \<and>
   mset (search lower w q) = filter_mset (code_match lower q) (mset (listed w)) \<and>
   ((\<forall>n\<in>set (listed w). \<not> code_match lower q n) \<longrightarrow> search lower w q = []) \<and>
   app (SearchNotes lower w q) = app w \<and> files (SearchNotes lower w q) = files w \<and>
   written (SearchNotes lower w q) = written w \<and>
   out (SearchNotes lower w q) =
     out w @ [if search lower w q = [] then NothingFound (lower q)
              else KnowledgeFound (lower q) (search lower w q)] \<and>
   (lower [] = [] \<and> content_on_text_only (app w) \<longrightarrow>
      search lower w q = filter (spec_match lower q) (elems (Notes (app w))))"
proof -
  have eq: "search lower w q = filter (code_match lower q) (elems (Notes (app w)))"
    by (rule search_code_match)
  have spec: "search lower w q = filter (spec_match lower q) (elems (Notes (app w)))"
    if "lower [] = []" and "content_on_text_only (app w)"
  proof -
    have "filter (code_match lower q) (elems (Notes (app w))) =
        filter (spec_match lower q) (elems (Notes (app w)))"
      using that by (intro filter_cong refl code_match_spec) (simp_all add: content_on_text_only_def)
    with eq show ?thesis by simp
  qed
  have printed: "app (SearchNotes lower w q) = app w \<and> files (SearchNotes lower w q) = files w \<and>
      written (SearchNotes lower w q) = written w \<and>
      out (SearchNotes lower w q) =
        out w @ [if search lower w q = [] then NothingFound (lower q)
                 else KnowledgeFound (lower q) (search lower w q)]"
    by (simp add: SearchNotes_def Let_def print_simps)
  from eq have "mset (search lower w q) = filter_mset (code_match lower q) (mset (listed w))"
    by (simp add: mset_listed)
  moreover from eq have "(\<forall>n\<in>set (listed w). \<not> code_match lower q n) \<longrightarrow> search lower w q = []"
    by (simp add: set_listed filter_empty_conv)
  ultimately show ?thesis using eq spec printed by blast
qed

lemma elems_sketch_world: "elems (Notes (app sketch_world)) = [gate_note, sketch_note]"
proof -
  have name: "capture_name ''20240101_120000'' 2 = ''scroll_capture_20240101_120000_2.png''"
    by (simp add: capture_name_def Sprintf_d_def digits.simps digit_char_def)
  show ?thesis
    by (simp add: sketch_world_def TakeScreenshot_def Let_def app_gate_world name
        run_capture_def supported_def print_simps SaveNotes_simps append_slice_def
        sketch_note_def)
qed

lemma sketch_samples:
  "ToLower ''GATE'' = ''gate''" "ToLower ''Gate sketch'' = ''gate sketch''"
  by (simp_all add: ToLower_def lower_byte_def)

text \<open>
  The theorem at the Gate Code note (a query in capitals finds it by its tag, a query that
  matches nothing finds nothing and prints so), at the loaded image note with a content,
  and at the store that holds the Gate Code note and a captured image without content.
\<close>

theorem search_witness:
  "search ToLower gate_world ''DOOR'' = [gate_note] \<and>
   search ToLower gate_world ''nope'' = [] \<and>
   search ToLower map_world ''hidden'' = [map_note] \<and>
   out (SearchNotes ToLower gate_world ''nope'') =
     [CreatedScroll 1 ''Gate Code'', NothingFound ''nope''] \<and>
   search ToLower sketch_world ''GATE'' = [gate_note, sketch_note] \<and>
   search ToLower sketch_world ''4471'' = [gate_note]"
proof -
  have lower: "ToLower [] = []" by (simp add: ToLower_def)
  have data: "content_on_text_only (app gate_world)"
    by (simp add: content_on_text_only_def app_gate_world gate_note_def)
  have gate: "elems (Notes (app gate_world)) = [gate_note]"
    by (simp add: app_gate_world)
  have map: "elems (Notes (app map_world)) = [map_note]"
    by (simp add: app_map_world map_store_def)
  have hit: "filter (spec_match ToLower ''DOOR'') [gate_note] = [gate_note]"
    by (simp add: gate_note_def spec_match_def ci_substring_def ToLower_samples sublist_code)
  have miss: "filter (spec_match ToLower ''nope'') [gate_note] = []"
    by (simp add: gate_note_def spec_match_def ci_substring_def ToLower_samples sublist_code)
  have image: "filter (code_match ToLower ''hidden'') [map_note] = [map_note]"
    by (simp add: map_note_def code_match_def ci_substring_def ToLower_samples sublist_code)
  from search_finds_the_matching_notes [of ToLower gate_world "''DOOR''"] lower data
  have "search ToLower gate_world ''DOOR'' =
      filter (spec_match ToLower ''DOOR'') (elems (Notes (app gate_world)))"
    by blast
  then have a: "search ToLower gate_world ''DOOR'' = [gate_note]"
    by (simp only: gate hit)
  from search_finds_the_matching_notes [of ToLower gate_world "''nope''"] lower data
  have found: "search ToLower gate_world ''nope'' =
      filter (spec_match ToLower ''nope'') (elems (Notes (app gate_world)))"
    and printed: "out (SearchNotes ToLower gate_world ''nope'') =
      out gate_world @ [if search ToLower gate_world ''nope'' = []
        then NothingFound (ToLower ''nope'')
        else KnowledgeFound (ToLower ''nope'') (search ToLower gate_world ''nope'')]"
    by blast+
  from found have b: "search ToLower gate_world ''nope'' = []"
    by (simp only: gate miss)
  from printed have c: "out (SearchNotes ToLower gate_world ''nope'') =
      [CreatedScroll 1 ''Gate Code'', NothingFound ''nope'']"
    by (simp add: b gate_world_rest ToLower_samples)
  from search_finds_the_matching_notes [of ToLower map_world "''hidden''"]
  have "search ToLower map_world ''hidden'' =
      filter (code_match ToLower ''hidden'') (elems (Notes (app map_world)))"
    by blast
  then have d: "search ToLower map_world ''hidden'' = [map_note]"
    by (simp only: map image)
  have data': "content_on_text_only (app sketch_world)"
    using elems_sketch_world
    by (simp add: content_on_text_only_def gate_note_def sketch_note_def)
  have both_hit: "filter (spec_match ToLower ''GATE'') [gate_note, sketch_note] =
      [gate_note, sketch_note]"
    by (simp add: gate_note_def sketch_note_def spec_match_def ci_substring_def ToLower_samples
        sketch_samples sublist_code)
  have text_hit: "filter (spec_match ToLower ''4471'') [gate_note, sketch_note] = [gate_note]"
    by (simp add: gate_note_def sketch_note_def spec_match_def ci_substring_def ToLower_samples
        sketch_samples sublist_code)
  from search_finds_the_matching_notes [of ToLower sketch_world "''GATE''"] lower data'
  have "search ToLower sketch_world ''GATE'' =
      filter (spec_match ToLower ''GATE'') (elems (Notes (app sketch_world)))"
    by blast
  then have e: "search ToLower sketch_world ''GATE'' = [gate_note, sketch_note]"
    by (simp only: elems_sketch_world both_hit)
  from search_finds_the_matching_notes [of ToLower sketch_world "''4471''"] lower data'
  have "search ToLower sketch_world ''4471'' =
      filter (spec_match ToLower ''4471'') (elems (Notes (app sketch_world)))"
    by blast
  then have f: "search ToLower sketch_world ''4471'' = [gate_note]"
    by (simp only: elems_sketch_world text_hit)
  from a b c d e f show ?thesis by blast
qed

section \<open>The identifiers of new notes\<close>

lemma old_scroll_valid: "coerce_Note old_scroll = old_scroll"
  by (rule valid_coerce_Note) (simp add: valid_Note_def old_scroll_def ascii_samples)

lemma start_on_files_with:
  assumes "cs = [] \<or> cs = [v]"
  shows "app (NewNotesApp ''/home/conan'' (files_with cs)) =
           \<lparr>Notes = Slice [old_scroll],
            NextID = (if cs = [] then 1 else fst (decode_int v 1)),
            NotesDir = ''/home/conan/scrolls-of-skelos'',
            ConfigFile = ''/home/conan/scrolls-of-skelos/scrolls.json''\<rparr> \<and>
         out (NewNotesApp ''/home/conan'' (files_with cs)) =
           (if cs = [] \<or> snd (decode_int v 1) = Decoded then [] else [ErrorParsing])"
proof -
  have paths: "coerce_utf8 ''/home/conan/scrolls-of-skelos'' = ''/home/conan/scrolls-of-skelos''"
    "coerce_utf8 ''/home/conan/scrolls-of-skelos/scrolls.json'' =
       ''/home/conan/scrolls-of-skelos/scrolls.json''"
    by (simp_all add: valid_coerce ascii_samples)
  have int: "snd (decode_int v 1) \<noteq> Stopped"
    by (simp add: decode_int_def split: json.splits)
  from assms show ?thesis
  proof
    assume "cs = []"
    then show ?thesis
      by (simp add: NewNotesApp_unfold LoadNotes_def files_with_def document_with_def
          config_path_conan Unmarshal_def NotesApp_field_def key_folds decode_Notes_def
          decode_Note_marshal old_scroll_valid decode_string_def paths both_simps print_simps)
  next
    assume "cs = [v]"
    with int show ?thesis
      by (cases "decode_int v 1"; cases "snd (decode_int v 1)")
        (simp_all add: NewNotesApp_unfold LoadNotes_def files_with_def document_with_def
          config_path_conan Unmarshal_def NotesApp_field_def key_folds decode_Notes_def
          decode_Note_marshal old_scroll_valid decode_string_def paths both_simps print_simps)
  qed
qed













section \<open>Saving and starting again\<close>

lemma members_of_cases:
  "members_of e = None \<Longrightarrow>
     e = Absent \<or> e = Unreachable \<or> e = Unreadable \<or> e = Bytes NotJson \<or>
     (\<exists>j. e = Bytes (WellFormed j) \<and> (\<forall>ms. j \<noteq> JObject ms))"
  by (cases e; simp add: members_of_def split: content.splits json.splits)


lemma Unmarshal_not_object:
  "\<forall>ms. j \<noteq> JObject ms \<Longrightarrow> fst (Unmarshal (WellFormed j) a) = a"
  by (cases j) (simp_all add: Unmarshal_def)

lemma start_without_object:
  assumes "members_of (fs (config_path homeDir)) = None"
  shows "app (NewNotesApp homeDir fs) =
           \<lparr>Notes = Slice [], NextID = 1, NotesDir = Join [homeDir, ''scrolls-of-skelos''],
            ConfigFile = config_path homeDir\<rparr>"
proof -
  from members_of_cases [OF assms] show ?thesis
  proof (elim disjE exE conjE)
    fix j assume "fs (config_path homeDir) = Bytes (WellFormed j)" "\<forall>ms. j \<noteq> JObject ms"
    then show ?thesis
      using Unmarshal_not_object [of j]
      by (simp add: NewNotesApp_unfold LoadNotes_def print_simps split_beta)
  qed (simp_all add: NewNotesApp_unfold LoadNotes_def print_simps Unmarshal_def)
qed

lemma start_on_saved:
  assumes "ConfigFile (app w) = config_path homeDir"
  shows "app (NewNotesApp homeDir (files (SaveNotes w Written))) = coerce_store (app w)"
    and "out (NewNotesApp homeDir (files (SaveNotes w Written))) = []"
  using assms
  by (simp_all add: NewNotesApp_unfold LoadNotes_def SaveNotes_def Let_def Unmarshal_Marshal)

lemma byte_title_world_facts:
  "app byte_title_world =
     \<lparr>Notes = Slice [text_note 1 [CHR 0xFF] ''4471'' nil 10 11], NextID = 2,
      NotesDir = ''/home/conan/scrolls-of-skelos'',
      ConfigFile = ''/home/conan/scrolls-of-skelos/scrolls.json''\<rparr>"
  "files byte_title_world ''/home/conan/scrolls-of-skelos/scrolls.json'' =
     Bytes (WellFormed (Marshal (app byte_title_world)))"
  by (simp_all add: byte_title_world_def Run_inscribe_def Let_def CreateTextNote_simps
      CreateTextNote_def SaveNotes_simps SaveNotes_def print_simps append_slice_def
      app_fresh_world fresh_world_rest TrimSpace_samples parse_tags_samples text_note_def)

lemma byte_title_reload:
  "app (NewNotesApp ''/home/conan'' (files byte_title_world)) = coerce_store (app byte_title_world)"
  by (simp add: NewNotesApp_unfold LoadNotes_def config_path_conan byte_title_world_facts(2)
      Unmarshal_Marshal)

text \<open>
  Claim C3 says that saving and loading gives identical notes for every store, and that a
  malformed document gives the empty collection. \<^verbatim>\<open>json.MarshalIndent\<close> writes a string that
  is not UTF-8 with U+FFFD for each offending byte: a note whose title is the one byte FF
  is saved by its own creation, and the next start loads it with the title EF BF BD,
  without a message. And a document that is a JSON object is decoded member by member: the
  saved document of one note, with the counter garbled into a string, is reported as
  unparsable and still leaves that note in the collection, and the counter at 1.
\<close>

theorem reload_counterexample:
  "map Title (elems (Notes (app byte_title_world))) = [[CHR 0xFF]] \<and>
   map Title (elems (Notes (app (NewNotesApp ''/home/conan'' (files byte_title_world))))) =
     [[CHR 0xEF, CHR 0xBF, CHR 0xBD]] \<and>
   Notes (app (NewNotesApp ''/home/conan'' (files byte_title_world))) \<noteq>
     Notes (app byte_title_world) \<and>
   out (NewNotesApp ''/home/conan'' (files byte_title_world)) = [] \<and>
   Notes (app (NewNotesApp ''/home/conan'' garbled_files)) = Slice [old_scroll] \<and>
   NextID (app (NewNotesApp ''/home/conan'' garbled_files)) = 1 \<and>
   out (NewNotesApp ''/home/conan'' garbled_files) = [ErrorParsing]"
proof -
  have reload: "Notes (app (NewNotesApp ''/home/conan'' (files byte_title_world))) =
      Slice [text_note 1 [CHR 0xEF, CHR 0xBF, CHR 0xBD] ''4471'' nil 10 11]"
    by (simp add: byte_title_reload coerce_store_def byte_title_world_facts(1) map_slice_def
        coerce_Note_def text_note_def coerce_byte_FF valid_coerce ascii_samples)
  have quiet: "out (NewNotesApp ''/home/conan'' (files byte_title_world)) = []"
    by (simp add: NewNotesApp_unfold LoadNotes_def config_path_conan byte_title_world_facts(2)
        Unmarshal_Marshal)
  have garbled: "Notes (app (NewNotesApp ''/home/conan'' garbled_files)) = Slice [old_scroll]"
    "NextID (app (NewNotesApp ''/home/conan'' garbled_files)) = 1"
    "out (NewNotesApp ''/home/conan'' garbled_files) = [ErrorParsing]"
    using start_on_files_with [of "[JString ''x'']" "JString ''x''"]
    by (simp_all add: garbled_files_def decode_int_def)
  show ?thesis
    by (simp add: reload quiet garbled byte_title_world_facts(1) text_note_def)
qed

text \<open>
  Claim C3, amended to what the code does. Save any store to the path that a start in the
  home directory reads, and start again: the store read back is the saved one with every
  string coerced to UTF-8 (each offending byte replaced by U+FFFD), without a message; so
  it is the saved store, with the same notes and the same counter, when all its strings are
  UTF-8. And a start where the document is missing, cannot be reached or read, is not
  JSON, or is JSON but not an object, returns with the empty collection and the counter 1,
  and writes nothing. A document that is a JSON object with members of a wrong type is
  decoded member by member and may leave notes.
\<close>

theorem save_then_start_again:
  "(ConfigFile (app w) = config_path homeDir \<longrightarrow>
      app (NewNotesApp homeDir (files (SaveNotes w Written))) = coerce_store (app w) \<and>
      out (NewNotesApp homeDir (files (SaveNotes w Written))) = []) \<and>
   (ConfigFile (app w) = config_path homeDir \<and> valid_store (app w) \<longrightarrow>
      app (NewNotesApp homeDir (files (SaveNotes w Written))) = app w) \<and>
   (members_of (fs (config_path homeDir)) = None \<longrightarrow>
      Notes (app (NewNotesApp homeDir fs)) = Slice [] \<and>
      NextID (app (NewNotesApp homeDir fs)) = 1 \<and>
      files (NewNotesApp homeDir fs) = fs \<and> written (NewNotesApp homeDir fs) = [])"
proof -
  have frame: "files (NewNotesApp homeDir fs) = fs \<and> written (NewNotesApp homeDir fs) = []"
    by (simp add: NewNotesApp_unfold LoadNotes_def print_simps split_beta
        split: entry.splits)
  show ?thesis
    using frame by (simp add: start_on_saved start_without_object valid_coerce_store)
qed

text \<open>
  The theorem at the world with two notes, at the note whose title is the byte FF, at an
  empty home directory, and at a document that is not JSON.
\<close>

theorem save_then_start_again_witness:
  "app (NewNotesApp ''/home/conan'' (files (SaveNotes two_scrolls Written))) = app two_scrolls \<and>
   Notes (app (NewNotesApp ''/home/conan'' (files (SaveNotes two_scrolls Written)))) =
     Slice [gate_note, chime_note] \<and>
   Notes (app (NewNotesApp ''/home/conan'' (files (SaveNotes byte_title_world Written)))) =
     Slice [text_note 1 [CHR 0xEF, CHR 0xBF, CHR 0xBD] ''4471'' nil 10 11] \<and>
   Notes (app (NewNotesApp ''/home/conan'' no_files)) = Slice [] \<and>
   Notes (app (NewNotesApp ''/home/conan''
     (no_files(config_path ''/home/conan'' := Bytes NotJson)))) = Slice []"
proof -
  have valid: "valid_store (app two_scrolls)"
    by (simp add: app_two_scrolls valid_store_def valid_Note_def gate_note_def chime_note_def
        ascii_samples)
  have path: "ConfigFile (app two_scrolls) = config_path ''/home/conan''"
    by (simp add: app_two_scrolls config_path_conan)
  have path': "ConfigFile (app byte_title_world) = config_path ''/home/conan''"
    by (simp add: byte_title_world_facts(1) config_path_conan)
  have none: "members_of (no_files (config_path ''/home/conan'')) = None"
    by (simp add: members_of_def no_files_def)
  have none': "members_of ((no_files(config_path ''/home/conan'' := Bytes NotJson))
      (config_path ''/home/conan'')) = None"
    by (simp add: members_of_def)
  have coerced: "Notes (coerce_store (app byte_title_world)) =
      Slice [text_note 1 [CHR 0xEF, CHR 0xBF, CHR 0xBD] ''4471'' nil 10 11]"
    by (simp add: coerce_store_def byte_title_world_facts(1) map_slice_def
        coerce_Note_def text_note_def coerce_byte_FF valid_coerce ascii_samples)
  from save_then_start_again [of two_scrolls "''/home/conan''" no_files] valid path none
  have a: "app (NewNotesApp ''/home/conan'' (files (SaveNotes two_scrolls Written))) =
      app two_scrolls"
    and c: "Notes (app (NewNotesApp ''/home/conan'' no_files)) = Slice []"
    by blast+
  from save_then_start_again [of byte_title_world "''/home/conan''"
      "no_files(config_path ''/home/conan'' := Bytes NotJson)"] path' none'
  have b: "app (NewNotesApp ''/home/conan'' (files (SaveNotes byte_title_world Written))) =
      coerce_store (app byte_title_world)"
    and d: "Notes (app (NewNotesApp ''/home/conan''
      (no_files(config_path ''/home/conan'' := Bytes NotJson)))) = Slice []"
    by blast+
  from a b c d coerced show ?thesis
    by (simp add: app_two_scrolls)
qed

section \<open>The counter after a start\<close>


















end
